theory Spec2Isabelle
  imports Complex_Main "HOL-Library.Word" "HOL-Library.AList"
begin

section \<open>solwatch-v2: the detection and analysis pipeline\<close>

text \<open>
  A shallow embedding of the Go packages \<open>analyzer\<close> (analyzer.go, fetch.go, logic.go,
  structs.go) and \<open>tracker\<close> (subscriber.go).

  Conventions of the embedding.
  \<^item> A Go \<open>string\<close> is a byte sequence: \<open>string\<close> (a \<open>char list\<close>); \<open>len\<close> is
    \<open>length\<close>, \<open>s[:n]\<close> is \<open>take n s\<close> and \<open>s[n:]\<close> is \<open>drop n s\<close> when the bounds
    are in range, and a run-time panic otherwise, which the model returns as a value.
  \<^item> A \<open>float64\<close> is modelled by the real number it denotes. The decisions the code takes on
    floats (comparisons with the thresholds, the sign of a delta) and the decimal rendering
    of a value are modelled exactly on that number; the rounding error of float additions
    is not modelled.
  \<^item> \<open>time.Time\<close> is a reading of a monotonic clock in nanoseconds (an \<open>int\<close>), and every
    call of \<open>time.Now\<close> or \<open>time.Since\<close> takes its reading as a parameter.
  \<^item> The outcome of an HTTP exchange and of the JSON decoding of its body belongs to the
    remote service and to the Go library: it is a parameter of the function that performs
    the exchange, and the function returns the list of the requests it made.
\<close>

subsection \<open>Time\<close>

type_synonym time = int

definition Second :: int where
  "Second = 1000000000"

definition Minute :: int where
  "Minute = 60 * Second"

text \<open>\<open>time.Since(t)\<close> at clock reading \<open>now\<close>.\<close>

definition Since :: "time \<Rightarrow> time \<Rightarrow> int" where
  "Since now t = now - t"

subsection \<open>The price oracle (analyzer.go)\<close>

record cachedPrice =
  Price :: real
  LastFetched :: time

record PriceOracle =
  cache :: "string \<Rightarrow> cachedPrice option"

definition NewPriceOracle :: PriceOracle where
  "NewPriceOracle = \<lparr>cache = Map.empty\<rparr>"

text \<open>
  What \<open>httpClient.Do\<close> followed by \<open>json.NewDecoder(resp.Body).Decode(&result)\<close> leaves:
  a transport error, or the decoded \<open>map[string]map[string]float64\<close> (the empty map when
  the body decodes to nothing; the status code is not looked at).
\<close>

datatype price_response =
    TransportError
  | Body "string \<Rightarrow> (string \<Rightarrow> real option) option"

definition priceURL :: "string \<Rightarrow> string" where
  "priceURL coinID =
     ''https://api.coingecko.com/api/v3/simple/price?ids='' @ coinID @ ''&vs_currencies=usd''"

text \<open>
  \<open>GetPriceUSD\<close>. \<open>now\<close> is the clock read by \<open>time.Since\<close>, \<open>later\<close> the clock read by
  \<open>time.Now\<close> when the fetched price is stored. The result is the pair \<open>(price, ok)\<close>, the
  oracle after the call and the URLs requested during the call.
\<close>

definition GetPriceUSD ::
  "(string \<Rightarrow> price_response) \<Rightarrow> time \<Rightarrow> time \<Rightarrow> PriceOracle \<Rightarrow> string
     \<Rightarrow> (real \<times> bool) \<times> PriceOracle \<times> string list" where
  "GetPriceUSD http now later orc coinID =
     (case (case cache orc coinID of
              None \<Rightarrow> None
            | Some val \<Rightarrow> if Since now (LastFetched val) < 60 * Second then Some (Price val) else None) of
        Some p \<Rightarrow> ((p, True), orc, [])
      | None \<Rightarrow>
          (let url = priceURL coinID in
           case http url of
             TransportError \<Rightarrow> ((0, False), orc, [url])
           | Body result \<Rightarrow>
               (case result coinID of
                  None \<Rightarrow> ((0, False), orc, [url])
                | Some priceData \<Rightarrow>
                    (case priceData ''usd'' of
                       None \<Rightarrow> ((0, False), orc, [url])
                     | Some price \<Rightarrow>
                         ((price, True),
                          orc\<lparr>cache := (cache orc)(coinID \<mapsto> \<lparr>Price = price, LastFetched = later\<rparr>)\<rparr>,
                          [url])))))"

text \<open>The cache entry of an asset class is fresh at clock reading \<open>now\<close>.\<close>

definition fresh :: "PriceOracle \<Rightarrow> time \<Rightarrow> string \<Rightarrow> bool" where
  "fresh orc now coinID =
     (case cache orc coinID of
        None \<Rightarrow> False
      | Some val \<Rightarrow> Since now (LastFetched val) < 60 * Second)"

text \<open>The exchange gave no price for the asset class: a transport failure, or a decoded
  body with no entry for the asset or no \<open>usd\<close> key in that entry.\<close>

definition noPrice :: "price_response \<Rightarrow> string \<Rightarrow> bool" where
  "noPrice r coinID =
     (case r of
        TransportError \<Rightarrow> True
      | Body result \<Rightarrow>
          (case result coinID of
             None \<Rightarrow> True
           | Some priceData \<Rightarrow> priceData ''usd'' = None))"

subsection \<open>The stream subscriber (subscriber.go)\<close>

text \<open>
  \<open>logsNotification\<close>: the three fields of the decoded message, named by their path in the
  Go struct. \<open>Err\<close> has the Go type \<open>any\<close>: \<open>None\<close> is \<open>nil\<close> (the JSON field is \<open>null\<close>
  or absent), \<open>Some v\<close> any decoded value.
\<close>

record logsNotification =
  Method :: string
  Params_Result_Value_Signature :: string
  Params_Result_Value_Err :: "string option"

record Subscriber =
  wss :: string
  addr :: string
  commitment :: string
  dedupeCache :: "string \<Rightarrow> time option"

definition NewSubscriber :: "(string \<Rightarrow> string) \<Rightarrow> string \<Rightarrow> string \<Rightarrow> string \<Rightarrow> Subscriber" where
  "NewSubscriber TrimSpace w c a =
     \<lparr>wss = TrimSpace w, addr = TrimSpace a, commitment = TrimSpace c, dedupeCache = Map.empty\<rparr>"

text \<open>
  \<open>isDuplicate\<close>, run under the subscriber's mutex. \<open>now\<close> is the clock read by
  \<open>time.Since\<close>, \<open>later\<close> the clock read by \<open>time.Now\<close> when the signature is recorded.
\<close>

definition isDuplicate :: "time \<Rightarrow> time \<Rightarrow> Subscriber \<Rightarrow> string \<Rightarrow> bool \<times> Subscriber" where
  "isDuplicate now later s signature =
     (if (case dedupeCache s signature of
            None \<Rightarrow> False
          | Some ts \<Rightarrow> Since now ts < 30 * Second)
      then (True, s)
      else (False, s\<lparr>dedupeCache := (dedupeCache s)(signature \<mapsto> later)\<rparr>))"

text \<open>
  One tick of \<open>cleanCache\<close>, run under the same mutex: every entry older than a minute is
  deleted. \<open>clk sig\<close> is the clock read by \<open>time.Since\<close> when the entry of \<open>sig\<close> is visited.
\<close>

definition cleanCache :: "(string \<Rightarrow> time) \<Rightarrow> Subscriber \<Rightarrow> Subscriber" where
  "cleanCache clk s =
     s\<lparr>dedupeCache :=
          (\<lambda>sig. case dedupeCache s sig of
                    None \<Rightarrow> None
                  | Some ts \<Rightarrow> if Since (clk sig) ts > 1 * Minute then None else Some ts)\<rparr>"

text \<open>
  The read loop of \<open>Run\<close> (the inner \<open>for\<close>). What happens around the loop while it runs
  is a list of events: \<open>conn.ReadMessage\<close> returns (an error, or a message, with the
  two clock readings \<open>isDuplicate\<close> would take), or the cleaner's ticker fires.
  \<open>unmarshal\<close> is \<open>json.Unmarshal\<close> into a \<open>logsNotification\<close> (\<open>None\<close>: it returned an
  error); \<open>notify\<close> tells whether \<open>SignatureNotify\<close> is registered (not \<open>nil\<close>).

  One iteration yields how it ended, the subscriber after it and the callback invocations
  \<open>(signature, address)\<close> it made. It ends with \<open>Continue\<close> (next iteration, the
  connection is kept), \<open>Break\<close> (read error: the loop is left and the connection is
  closed) or \<open>Panic\<close> (\<open>signature[:16]\<close> out of range).
\<close>

datatype event =
    ReadMessage "string option" time time
  | Tick "string \<Rightarrow> time"

datatype flow = Continue | Break | Panic

definition handleMessage ::
  "(string \<Rightarrow> logsNotification option) \<Rightarrow> bool \<Rightarrow> time \<Rightarrow> time \<Rightarrow> Subscriber \<Rightarrow> string
     \<Rightarrow> flow \<times> Subscriber \<times> (string \<times> string) list" where
  "handleMessage unmarshal notify now later s msg =
     (case unmarshal msg of
        None \<Rightarrow> (Continue, s, [])
      | Some notif \<Rightarrow>
          if Method notif \<noteq> ''logsNotification''
             \<or> Params_Result_Value_Signature notif = []
             \<or> Params_Result_Value_Err notif \<noteq> None
          then (Continue, s, [])
          else
            (let signature = Params_Result_Value_Signature notif;
                 (dup, s') = isDuplicate now later s signature
             in if dup then (Continue, s', [])
                else if length signature < 16 then (Panic, s', [])
                else if notify then (Continue, s', [(signature, addr s')])
                else (Continue, s', [])))"

fun readLoop ::
  "(string \<Rightarrow> logsNotification option) \<Rightarrow> bool \<Rightarrow> Subscriber \<Rightarrow> event list
     \<Rightarrow> flow \<times> Subscriber \<times> (string \<times> string) list" where
  "readLoop unmarshal notify s [] = (Continue, s, [])"
| "readLoop unmarshal notify s (Tick clk # evs) = readLoop unmarshal notify (cleanCache clk s) evs"
| "readLoop unmarshal notify s (ReadMessage None now later # evs) = (Break, s, [])"
| "readLoop unmarshal notify s (ReadMessage (Some msg) now later # evs) =
     (case handleMessage unmarshal notify now later s msg of
        (Continue, s', calls) \<Rightarrow>
          (case readLoop unmarshal notify s' evs of
             (fl, s'', calls') \<Rightarrow> (fl, s'', calls @ calls'))
      | (fl, s', calls) \<Rightarrow> (fl, s', calls))"

text \<open>Every clock reading of the events lies in the half-open window \<open>[t0, t0 + d)\<close>.\<close>

fun readings :: "event \<Rightarrow> string \<Rightarrow> time list" where
  "readings (ReadMessage m now later) sig = [now, later]"
| "readings (Tick clk) sig = [clk sig]"

definition withinWindow :: "time \<Rightarrow> int \<Rightarrow> string \<Rightarrow> event list \<Rightarrow> bool" where
  "withinWindow t0 d sig evs = (\<forall>ev \<in> set evs. \<forall>r \<in> set (readings ev sig). t0 \<le> r \<and> r < t0 + d)"

text \<open>The number of times the callback was invoked for a signature.\<close>

definition fired :: "string \<Rightarrow> (string \<times> string) list \<Rightarrow> nat" where
  "fired sig calls = length (filter (\<lambda>c. fst c = sig) calls)"

subsection \<open>The enriched transaction (structs.go)\<close>

text \<open>
  The Go structs as records. A field whose name occurs in two structs keeps its name in
  the first and takes a prefix in the others (\<open>nt_\<close>, \<open>raw_\<close>, \<open>tbc_\<close>, \<open>tsa_\<close>).
  An \<open>int64\<close> is a \<open>64 word\<close> read by \<open>sint\<close>; \<open>TransactionError\<close>, a pointer to the
  raw JSON of the field, is \<open>None\<close> for \<open>nil\<close>.
\<close>

type_synonym int64 = "64 word"

record TokenTransfer =
  FromTokenAccount :: string
  ToTokenAccount :: string
  FromUserAccount :: string
  ToUserAccount :: string
  Mint :: string
  TokenAmount :: real
  TokenStandard :: string

record NativeTransfer =
  nt_FromUserAccount :: string
  nt_ToUserAccount :: string
  Amount :: int64

record RawTokenAmount =
  raw_TokenAmount :: string
  raw_Decimals :: int

record TokenBalanceChange =
  tbc_UserAccount :: string
  tbc_TokenAccount :: string
  tbc_RawTokenAmount :: RawTokenAmount
  tbc_Mint :: string

record AccountData =
  Account :: string
  NativeBalanceChange :: int64
  TokenBalanceChanges :: "TokenBalanceChange list"

record TokenSwapAmount =
  tsa_UserAccount :: string
  tsa_RawTokenAmount :: RawTokenAmount
  tsa_Mint :: string

record SwapEvent =
  TokenInputs :: "TokenSwapAmount list"
  TokenOutputs :: "TokenSwapAmount list"

record TransactionEvents =
  Swap :: "SwapEvent option"

record HeliusTransaction =
  Signature :: string
  Timestamp :: int64
  Fee :: int64
  FeePayer :: string
  Type :: string
  Source :: string
  Description :: string
  TokenTransfers :: "TokenTransfer list"
  NativeTransfers :: "NativeTransfer list"
  AccountData :: "AccountData list"
  TransactionError :: "string option"
  Events :: TransactionEvents

record TokenMetadata =
  Symbol :: string
  Decimals :: int

subsection \<open>Filtering (logic.go)\<close>

definition usdcMint :: string where
  "usdcMint = ''EPjFWdd5AufqSSqeM2qN1xzybapC8G4wEGGkZwyTDt1v''"

definition wsolMint :: string where
  "wsolMint = ''So11111111111111111111111111111111111111112''"

definition filterThreshold :: real where
  "filterThreshold = 1 / 10000"

definition lamportsPerSol :: real where
  "lamportsPerSol = 1000000000"

definition isPriceTracked :: "string \<Rightarrow> string \<times> bool" where
  "isPriceTracked mint =
     (if mint = wsolMint then (''solana'', True)
      else if mint = usdcMint then (''usd-coin'', True)
      else ('''', False))"

text \<open>
  The loop over \<open>tx.AccountData\<close> that \<open>shouldFilter\<close> and \<open>calculateNetBalanceChanges\<close>
  both contain: the balance change of the first entry of the tracked account, the zero
  value of the variable when there is none.
\<close>

fun nativeChange :: "AccountData list \<Rightarrow> string \<Rightarrow> int64" where
  "nativeChange [] trackedAddr = 0"
| "nativeChange (ad # ads) trackedAddr =
     (if Account ad = trackedAddr then NativeBalanceChange ad else nativeChange ads trackedAddr)"

text \<open>The loop of \<open>shouldFilter\<close> over \<open>tx.TokenTransfers\<close> that sets \<open>hasOtherTokens\<close>.\<close>

fun hasOtherTokens :: "TokenTransfer list \<Rightarrow> string \<Rightarrow> bool" where
  "hasOtherTokens [] trackedAddr = False"
| "hasOtherTokens (tt # tts) trackedAddr =
     (if Mint tt = wsolMint then hasOtherTokens tts trackedAddr
      else if FromUserAccount tt = trackedAddr \<or> ToUserAccount tt = trackedAddr then True
      else hasOtherTokens tts trackedAddr)"

definition shouldFilter :: "HeliusTransaction \<Rightarrow> string \<Rightarrow> bool" where
  "shouldFilter tx trackedAddr =
     (if TransactionError tx \<noteq> None \<and> the (TransactionError tx) \<noteq> ''null'' then False
      else
        (let solValueChange =
               \<bar>real_of_int (sint (nativeChange (AccountData tx) trackedAddr)) / lamportsPerSol\<bar>
         in \<not> hasOtherTokens (TokenTransfers tx) trackedAddr \<and> solValueChange < filterThreshold))"

text \<open>
  A transaction that failed on-chain and moved nothing but the fee of 5000 lamports out of
  the tracked wallet.
\<close>

definition failedFeeOnlyTx :: HeliusTransaction where
  "failedFeeOnlyTx =
     \<lparr>Signature = ''5VERv8NMvzbJMEkV8xnrLkEaWRtSz9CosKDYjCJjBRnbJLgp8uirBgmQpjKhoR4tjF3ZpRzrFmBV6UjKdiSZkQUW'',
      Timestamp = 1700000000, Fee = 5000, FeePayer = ''Wallet1'', Type = ''UNKNOWN'',
      Source = ''UNKNOWN'', Description = '''', TokenTransfers = [], NativeTransfers = [],
      AccountData = [\<lparr>Account = ''Wallet1'', NativeBalanceChange = - 5000, TokenBalanceChanges = []\<rparr>],
      TransactionError = Some ''{}'', Events = \<lparr>Swap = None\<rparr>\<rparr>"

subsection \<open>Rendering amounts (logic.go)\<close>

text \<open>A call returns a value or stops with a run-time panic (an index or a slice bound
  out of range).\<close>

datatype 'a outcome = Returns 'a | Panics

text \<open>
  \<open>strconv.FormatFloat(x, 'f', prec, 64)\<close> and \<open>strconv.FormatFloat(x, 'g', prec, 64)\<close>
  belong to the Go library. They are modelled as the library documents and implements
  them: the decimal digits of the exact value of the float, rounded to the requested
  number of digits to nearest, a tie to the even digit; \<open>'g'\<close> drops trailing zeros and
  switches to the exponent form when the decimal exponent is below \<open>-4\<close> or not below
  the precision. \<open>digs\<close> is the library's \<open>decimalSlice\<close> (digits and position of the
  decimal point), \<open>fmtF\<close> and \<open>fmtE\<close> are its \<open>%f\<close> and \<open>%e\<close> layouts.
\<close>

definition digit :: "nat \<Rightarrow> char" where
  "digit d = ''0123456789'' ! d"

fun decimal :: "nat \<Rightarrow> string" where
  "decimal n = (if n < 10 then [digit n] else decimal (n div 10) @ [digit (n mod 10)])"

declare decimal.simps [simp del]

definition roundHalfEven :: "real \<Rightarrow> int" where
  "roundHalfEven x =
     (let f = \<lfloor>x\<rfloor>; d = x - of_int f
      in if d < 1 / 2 then f else if 1 / 2 < d then f + 1 else if even f then f else f + 1)"

definition FormatFloat_f :: "real \<Rightarrow> nat \<Rightarrow> string" where
  "FormatFloat_f x prec =
     (let n = nat (roundHalfEven (\<bar>x\<bar> * 10 ^ prec));
          ip = decimal (n div 10 ^ prec);
          fp = decimal (n mod 10 ^ prec)
      in (if x < 0 then ''-'' else []) @ ip
         @ (if prec = 0 then [] else ''.'' @ replicate (prec - length fp) (CHR ''0'') @ fp))"

text \<open>The decimal exponent of a positive number: \<open>expUp\<close> for \<open>x \<ge> 1\<close>, \<open>expDown\<close> for
  \<open>x < 1\<close>.\<close>

function expUp :: "real \<Rightarrow> int" where
  "expUp x = (if x < 10 then 0 else expUp (x / 10) + 1)"
  by pat_completeness auto
termination
proof (relation "measure (\<lambda>x. nat \<lfloor>x\<rfloor>)")
  show "wf (measure (\<lambda>x. nat \<lfloor>x\<rfloor>))" by simp
next
  fix x :: real
  assume "\<not> x < 10"
  then have "\<lfloor>x / 10\<rfloor> < \<lfloor>x\<rfloor>" "0 < \<lfloor>x\<rfloor>" by linarith+
  then show "(x / 10, x) \<in> measure (\<lambda>x. nat \<lfloor>x\<rfloor>)" by simp
qed

function expDown :: "real \<Rightarrow> int" where
  "expDown x = (if x \<le> 0 \<or> 1 \<le> x then 0 else expDown (x * 10) - 1)"
  by pat_completeness auto
termination
proof (relation "measure (\<lambda>x. nat \<lfloor>1 / x\<rfloor>)")
  show "wf (measure (\<lambda>x. nat \<lfloor>1 / x\<rfloor>))" by simp
next
  fix x :: real
  assume a: "\<not> (x \<le> 0 \<or> 1 \<le> x)"
  then have y: "1 < 1 / x" by simp
  then have p: "1 \<le> \<lfloor>1 / x\<rfloor>" by linarith
  have "\<lfloor>(1 / x) / real_of_int 10\<rfloor> = \<lfloor>1 / x\<rfloor> div 10"
    by (rule floor_divide_real_eq_div) simp
  moreover from p have "\<lfloor>1 / x\<rfloor> div 10 < \<lfloor>1 / x\<rfloor>" by presburger
  moreover have "1 / (x * 10) = (1 / x) / real_of_int 10" by simp
  ultimately have "\<lfloor>1 / (x * 10)\<rfloor> < \<lfloor>1 / x\<rfloor>" by (simp only:)
  with p have "nat \<lfloor>1 / (x * 10)\<rfloor> < nat \<lfloor>1 / x\<rfloor>" by linarith
  then show "(x * 10, x) \<in> measure (\<lambda>x. nat \<lfloor>1 / x\<rfloor>)"
    by (simp only: in_measure)
qed

declare expUp.simps [simp del] expDown.simps [simp del]


definition trimZeros :: "string \<Rightarrow> string" where
  "trimZeros ds = rev (dropWhile (\<lambda>c. c = CHR ''0'') (rev ds))"

definition digs :: "real \<Rightarrow> nat \<Rightarrow> string \<times> int" where
  "digs x prec =
     (if x = 0 then ([], 0)
      else
        (let a = \<bar>x\<bar>;
             e = (if 1 \<le> a then expUp a else expDown a);
             sh = int prec - 1 - e;
             m = nat (roundHalfEven (if 0 \<le> sh then a * 10 ^ nat sh else a / 10 ^ nat (- sh)))
         in if m = 10 ^ prec then (trimZeros (decimal (10 ^ (prec - 1))), e + 2)
            else (trimZeros (decimal m), e + 1)))"

definition fmtF :: "bool \<Rightarrow> string \<times> int \<Rightarrow> nat \<Rightarrow> string" where
  "fmtF neg d prec =
     (let ds = fst d; dp = snd d; nd = length ds
      in (if neg then ''-'' else [])
         @ (if 0 < dp then take (nat dp) ds @ replicate (nat dp - min nd (nat dp)) (CHR ''0'')
            else ''0'')
         @ (if 0 < prec
            then ''.'' @ map (\<lambda>i. if 0 \<le> dp + int i \<and> dp + int i < int nd
                                   then ds ! nat (dp + int i) else CHR ''0'') [0..<prec]
            else []))"

definition fmtE :: "bool \<Rightarrow> string \<times> int \<Rightarrow> int \<Rightarrow> string" where
  "fmtE neg d prec =
     (let ds = fst d; dp = snd d; nd = length ds;
          exp = (if nd = 0 then 0 else dp - 1);
          a = nat \<bar>exp\<bar>
      in (if neg then ''-'' else [])
         @ (if nd \<noteq> 0 then [ds ! 0] else ''0'')
         @ (if 0 < prec
            then ''.'' @ take (nat prec) (drop 1 ds)
                 @ replicate (nat prec + 1 - max (min nd (nat prec + 1)) 1) (CHR ''0'')
            else [])
         @ ''e''
         @ (if exp < 0 then ''-'' else ''+'')
         @ (if a < 10 then [CHR ''0'', digit a]
            else if a < 100 then [digit (a div 10), digit (a mod 10)]
            else [digit (a div 100), digit (a div 10 mod 10), digit (a mod 10)]))"

definition FormatFloat_g :: "real \<Rightarrow> nat \<Rightarrow> string" where
  "FormatFloat_g x prec =
     (let d = digs x prec; nd = length (fst d); dp = snd d;
          eprec = (if nd < prec \<and> dp \<le> int nd then nd else prec);
          exp = dp - 1
      in if exp < - 4 \<or> int eprec \<le> exp
         then fmtE (x < 0) d (int (min prec nd) - 1)
         else fmtF (x < 0) d (nat (max ((if dp < int prec then int nd else int prec) - dp) 0)))"

text \<open>
  The loop of \<open>formatHumanReadable\<close> that fills the byte slice \<open>b\<close> from the right,
  with the bounds checks of the Go run time on \<open>integerPart[i]\<close> and \<open>b[j]\<close>.
\<close>

function commaLoop :: "string \<Rightarrow> string \<Rightarrow> int \<Rightarrow> int \<Rightarrow> nat \<Rightarrow> string outcome" where
  "commaLoop integerPart b i j k =
     (if i < 0 \<or> int (length integerPart) \<le> i \<or> j < 0 \<or> int (length b) \<le> j then Panics
      else
        (let b1 = b[nat j := integerPart ! nat i]
         in if i = 0 then Returns b1
            else if (k + 1) mod 3 = 0
            then (if j - 1 < 0 then Panics
                  else commaLoop integerPart (b1[nat (j - 1) := CHR '','']) (i - 1) (j - 1 - 1) (k + 1))
            else commaLoop integerPart b1 (i - 1) (j - 1) (k + 1)))"
  by pat_completeness auto
termination
  by (relation "measure (\<lambda>(integerPart, b, i, j, k). nat i)") auto

declare commaLoop.simps [simp del]

definition formatHumanReadable :: "real \<Rightarrow> string outcome" where
  "formatHumanReadable f =
     (if 1 \<le> f then
        (let prec = (if 1000 \<le> f then 0 else 2);
             s = FormatFloat_f f prec;
             integerPart = takeWhile (\<lambda>c. c \<noteq> CHR ''.'') s;
             rest = dropWhile (\<lambda>c. c \<noteq> CHR ''.'') s;
             fractionalPart =
               (if rest = [] then [] else ''.'' @ takeWhile (\<lambda>c. c \<noteq> CHR ''.'') (tl rest));
             n = length integerPart
         in if n \<le> 3 then Returns s
            else
              (let commas = (n - 1) div 3;
                   b = replicate (n + commas) (CHR 0x00)
               in case commaLoop integerPart b (int n - 1) (int (length b) - 1) 0 of
                    Panics \<Rightarrow> Panics
                  | Returns b' \<Rightarrow> Returns (b' @ fractionalPart)))
      else Returns (FormatFloat_g f 3))"

subsection \<open>The world of one analysis\<close>

text \<open>
  Errors as values: what \<open>client.Do\<close> returned, the two errors \<open>fetchHeliusTransaction\<close>
  builds with \<open>fmt.Errorf\<close>, the error \<open>AnalyzeSignature\<close> wraps around them, and the error
  of a metadata lookup.
\<close>

datatype error =
    ErrTransport
  | ErrNon200 int string
  | ErrDecodeOrEmpty string
  | ErrFetchTx string error
  | ErrMetadata

text \<open>
  The exchange of \<open>fetchHeliusTransaction\<close>: a transport error, or a response with its
  status code, its body and what \<open>json.NewDecoder(resp.Body).Decode(&transactions)\<close> makes
  of the body (\<open>None\<close>: it returned an error).
\<close>

datatype helius_response =
    HeliusTransportError
  | HeliusResponse int string "HeliusTransaction list option"

text \<open>
  Everything outside the two packages that one call of \<open>AnalyzeSignature\<close> consults:
  \<^item> \<open>heliusHTTP url signature\<close>: the enrichment exchange;
  \<^item> \<open>fetchOnChainMetadata mint rpcURL\<close>: the outcome of the three RPC exchanges and of
    the parse of the metadata account in fetch.go, which is not embedded here: metadata,
    an error, or a panic;
  \<^item> \<open>priceWorld k\<close>: the exchange and the two clock readings met by the \<open>k\<close>-th call of
    \<open>GetPriceUSD\<close> during the analysis;
  \<^item> \<open>rangeDeltas\<close>, \<open>rangeMints\<close>: the order in which \<open>range\<close> visits a Go map, which
    the language leaves open (a permutation of the entries);
  \<^item> \<open>ParseFloat\<close>, \<open>Pow10\<close>, \<open>ToTitle\<close>, \<open>ToLower\<close>: \<open>strconv.ParseFloat\<close> with its
    error dropped, \<open>math.Pow10\<close>, \<open>strings.ToTitle\<close>, \<open>strings.ToLower\<close>;
  \<^item> \<open>ReplaceAllStringFunc src f\<close>: \<open>solanaAddressRegex.ReplaceAllStringFunc(src, f)\<close>.
\<close>

record world =
  heliusHTTP :: "string \<Rightarrow> string \<Rightarrow> helius_response"
  fetchOnChainMetadata :: "string \<Rightarrow> string \<Rightarrow> (error + TokenMetadata) outcome"
  priceWorld :: "nat \<Rightarrow> (string \<Rightarrow> price_response) \<times> time \<times> time"
  rangeDeltas :: "(string \<times> real) list \<Rightarrow> (string \<times> real) list"
  rangeMints :: "string list \<Rightarrow> string list"
  ParseFloat :: "string \<Rightarrow> real"
  Pow10 :: "int \<Rightarrow> real"
  ToTitle :: "string \<Rightarrow> string"
  ToLower :: "string \<Rightarrow> string"
  ReplaceAllStringFunc :: "string \<Rightarrow> (string \<Rightarrow> string) \<Rightarrow> string"

text \<open>
  \<open>oracle.GetPriceUSD(context.Background(), coinID)\<close> inside an analysis: the state is the
  oracle and the number of calls made so far.
\<close>

definition callOracle ::
  "world \<Rightarrow> PriceOracle \<times> nat \<Rightarrow> string \<Rightarrow> (real \<times> bool) \<times> (PriceOracle \<times> nat)" where
  "callOracle W st coinID =
     (case priceWorld W (snd st) of
        (http, now, later) \<Rightarrow>
          (case GetPriceUSD http now later (fst st) coinID of
             (r, orc', reqs) \<Rightarrow> (r, (orc', Suc (snd st)))))"

text \<open>
  The three places that append the fiat figure do the same: call the oracle and, when it
  answers \<open>ok\<close>, append \<open>fmt.Sprintf(" ($%.2f)", amount * price)\<close>.
\<close>

definition appendUSD ::
  "world \<Rightarrow> PriceOracle \<times> nat \<Rightarrow> string \<Rightarrow> real \<Rightarrow> string \<Rightarrow> string \<times> (PriceOracle \<times> nat)" where
  "appendUSD W st formatted amount coinID =
     (case callOracle W st coinID of
        ((price, ok), st') \<Rightarrow>
          if ok then (formatted @ '' ($'' @ FormatFloat_f (amount * price) 2 @ '')'', st')
          else (formatted, st'))"

subsection \<open>Netting balances (logic.go)\<close>

text \<open>
  \<open>tokenDeltas\<close>, a \<open>map[string]float64\<close>, is an association list with distinct keys;
  reading a missing key gives the zero value.
\<close>

definition getDelta :: "(string \<times> real) list \<Rightarrow> string \<Rightarrow> real" where
  "getDelta tokenDeltas mint = (case map_of tokenDeltas mint of None \<Rightarrow> 0 | Some v \<Rightarrow> v)"

text \<open>Step 1: the loop over \<open>tx.TokenTransfers\<close>, on \<open>(tokenDeltas, wsolInflowFromOther)\<close>.\<close>

fun tokenDeltasLoop ::
  "string \<Rightarrow> TokenTransfer list \<Rightarrow> (string \<times> real) list \<times> bool \<Rightarrow> (string \<times> real) list \<times> bool" where
  "tokenDeltasLoop trackedAddr [] acc = acc"
| "tokenDeltasLoop trackedAddr (tt # tts) (tokenDeltas, wsolInflowFromOther) =
     (let td1 = (if FromUserAccount tt = trackedAddr
                 then AList.update (Mint tt) (getDelta tokenDeltas (Mint tt) - TokenAmount tt) tokenDeltas
                 else tokenDeltas);
          td2 = (if ToUserAccount tt = trackedAddr
                 then AList.update (Mint tt) (getDelta td1 (Mint tt) + TokenAmount tt) td1
                 else td1);
          inflow = (if ToUserAccount tt = trackedAddr \<and> Mint tt = wsolMint
                       \<and> FromUserAccount tt \<noteq> trackedAddr
                    then True else wsolInflowFromOther)
      in tokenDeltasLoop trackedAddr tts (td2, inflow))"

text \<open>Steps 1 to 3 of \<open>calculateNetBalanceChanges\<close>: \<open>totalSolChange\<close> and the
  \<open>tokenDeltas\<close> left after \<open>delete(tokenDeltas, wsolMint)\<close>.\<close>

definition netChanges :: "HeliusTransaction \<Rightarrow> string \<Rightarrow> real \<times> (string \<times> real) list" where
  "netChanges tx trackedAddr =
     (case tokenDeltasLoop trackedAddr (TokenTransfers tx) ([], False) of
        (tokenDeltas, wsolInflowFromOther) \<Rightarrow>
          (let nativeChangeLamports = nativeChange (AccountData tx) trackedAddr;
               nativeSol = real_of_int (sint nativeChangeLamports) / lamportsPerSol;
               wsolDelta = getDelta tokenDeltas wsolMint;
               totalSolChange = (if wsolInflowFromOther \<and> 1 / 10 ^ 12 < wsolDelta
                                 then nativeSol + wsolDelta else nativeSol)
           in (totalSolChange, AList.delete wsolMint tokenDeltas)))"

text \<open>Step 4: the SOL line.\<close>

definition emitSol ::
  "world \<Rightarrow> PriceOracle \<times> nat \<Rightarrow> real
     \<Rightarrow> (string list \<times> string list \<times> (PriceOracle \<times> nat)) outcome" where
  "emitSol W st totalSolChange =
     (if 1 / 10 ^ 12 < \<bar>totalSolChange\<bar> then
        (case formatHumanReadable \<bar>totalSolChange\<bar> of
           Panics \<Rightarrow> Panics
         | Returns h \<Rightarrow>
             (case appendUSD W st (h @ '' SOL'') \<bar>totalSolChange\<bar> ''solana'' of
                (formatted, st') \<Rightarrow>
                  if 0 < totalSolChange then Returns ([], [formatted], st')
                  else Returns ([formatted], [], st')))
      else Returns ([], [], st))"

text \<open>Step 5: the loop over the remaining \<open>tokenDeltas\<close>, in the order \<open>range\<close> gives.
  \<open>mint[:4]\<close> panics on a mint shorter than four bytes.\<close>

fun emitTokens ::
  "world \<Rightarrow> (string \<Rightarrow> TokenMetadata option) \<Rightarrow> (string \<times> real) list
     \<Rightarrow> string list \<times> string list \<times> (PriceOracle \<times> nat)
     \<Rightarrow> (string list \<times> string list \<times> (PriceOracle \<times> nat)) outcome" where
  "emitTokens W metadataCache [] acc = Returns acc"
| "emitTokens W metadataCache ((mint, delta) # rest) (sent, received, st) =
     (if \<bar>delta\<bar> < 1 / 10 ^ 18 then emitTokens W metadataCache rest (sent, received, st)
      else
        (case (case metadataCache mint of
                 Some meta \<Rightarrow> Returns meta
               | None \<Rightarrow>
                   if length mint < 4 then Panics
                   else Returns \<lparr>Symbol = ''Mint('' @ take 4 mint @ ''...)'', Decimals = 6\<rparr>) of
           Panics \<Rightarrow> Panics
         | Returns meta \<Rightarrow>
             (case formatHumanReadable \<bar>delta\<bar> of
                Panics \<Rightarrow> Panics
              | Returns h \<Rightarrow>
                  (case (if snd (isPriceTracked mint)
                         then appendUSD W st (h @ '' '' @ Symbol meta) \<bar>delta\<bar> (fst (isPriceTracked mint))
                         else (h @ '' '' @ Symbol meta, st)) of
                     (formatted, st') \<Rightarrow>
                       if 0 < delta
                       then emitTokens W metadataCache rest (sent, received @ [formatted], st')
                       else emitTokens W metadataCache rest (sent @ [formatted], received, st')))))"

definition calculateNetBalanceChanges ::
  "world \<Rightarrow> HeliusTransaction \<Rightarrow> string \<Rightarrow> (string \<Rightarrow> TokenMetadata option) \<Rightarrow> PriceOracle \<times> nat
     \<Rightarrow> (string list \<times> string list \<times> (PriceOracle \<times> nat)) outcome" where
  "calculateNetBalanceChanges W tx trackedAddr metadataCache st =
     (case netChanges tx trackedAddr of
        (totalSolChange, tokenDeltas) \<Rightarrow>
          (case emitSol W st totalSolChange of
             Panics \<Rightarrow> Panics
           | Returns acc \<Rightarrow> emitTokens W metadataCache (rangeDeltas W tokenDeltas) acc))"

definition parseAmount :: "world \<Rightarrow> string \<Rightarrow> int \<Rightarrow> real" where
  "parseAmount W amountStr decimals = ParseFloat W amountStr / Pow10 W decimals"

subsection \<open>The analysis engine (analyzer.go, fetch.go)\<close>

record Analyzer =
  HeliusTxURL :: string
  SolanaRPCURL :: string
  metadataCache :: "string \<Rightarrow> TokenMetadata option"
  priceOracle :: PriceOracle

definition New :: "string \<Rightarrow> string \<Rightarrow> Analyzer" where
  "New heliusTxURL solanaRPCURL =
     \<lparr>HeliusTxURL = heliusTxURL, SolanaRPCURL = solanaRPCURL,
      metadataCache = [wsolMint \<mapsto> \<lparr>Symbol = ''SOL'', Decimals = 9\<rparr>,
                        usdcMint \<mapsto> \<lparr>Symbol = ''USDC'', Decimals = 6\<rparr>],
      priceOracle = NewPriceOracle\<rparr>"

definition fetchHeliusTransaction :: "world \<Rightarrow> string \<Rightarrow> string \<Rightarrow> error + HeliusTransaction" where
  "fetchHeliusTransaction W signature heliusURL =
     (case heliusHTTP W heliusURL signature of
        HeliusTransportError \<Rightarrow> Inl ErrTransport
      | HeliusResponse status bodyBytes decoded \<Rightarrow>
          if status \<noteq> 200 then Inl (ErrNon200 status bodyBytes)
          else
            (case decoded of
               None \<Rightarrow> Inl (ErrDecodeOrEmpty signature)
             | Some [] \<Rightarrow> Inl (ErrDecodeOrEmpty signature)
             | Some (tx # txs) \<Rightarrow> Inr tx))"

definition shortenAddress :: "string \<Rightarrow> string" where
  "shortenAddress a =
     (if length a \<le> 8 then ''<code>'' @ a @ ''</code>''
      else ''<code>'' @ take 4 a @ ''...'' @ drop (length a - 4) a @ ''</code>'')"

text \<open>The keys of the \<open>mints\<close> map that \<open>ensureMetadataIsCached\<close> collects.\<close>

definition collectMints :: "HeliusTransaction \<Rightarrow> string list" where
  "collectMints tx =
     remdups
       (filter (\<lambda>m. m \<noteq> []) (map Mint (TokenTransfers tx))
        @ (case Swap (Events tx) of
             None \<Rightarrow> []
           | Some sw \<Rightarrow> map tsa_Mint (TokenInputs sw) @ map tsa_Mint (TokenOutputs sw)))"

text \<open>
  The loop of \<open>ensureMetadataIsCached\<close> over the mints, on the cache and the list of the
  mints looked up remotely so far.
\<close>

fun ensureLoop ::
  "world \<Rightarrow> string \<Rightarrow> string list \<Rightarrow> (string \<Rightarrow> TokenMetadata option) \<times> string list
     \<Rightarrow> ((string \<Rightarrow> TokenMetadata option) \<times> string list) outcome" where
  "ensureLoop W rpcURL [] acc = Returns acc"
| "ensureLoop W rpcURL (mint # mints) (cached, fetched) =
     (case cached mint of
        Some found \<Rightarrow> ensureLoop W rpcURL mints (cached, fetched)
      | None \<Rightarrow>
          (case fetchOnChainMetadata W mint rpcURL of
             Panics \<Rightarrow> Panics
           | Returns (Inl err) \<Rightarrow>
               ensureLoop W rpcURL mints
                 (cached(mint \<mapsto> \<lparr>Symbol = ''Mint('' @ shortenAddress mint @ '')'', Decimals = 6\<rparr>),
                  fetched @ [mint])
           | Returns (Inr meta) \<Rightarrow>
               ensureLoop W rpcURL mints (cached(mint \<mapsto> meta), fetched @ [mint])))"

text \<open>\<open>ensureMetadataIsCached\<close>: the analyzer with the cache filled, and the mints it
  looked up remotely.\<close>

definition ensureMetadataIsCached ::
  "world \<Rightarrow> Analyzer \<Rightarrow> HeliusTransaction \<Rightarrow> (Analyzer \<times> string list) outcome" where
  "ensureMetadataIsCached W a tx =
     (case ensureLoop W (SolanaRPCURL a) (rangeMints W (collectMints tx)) (metadataCache a, []) of
        Panics \<Rightarrow> Panics
      | Returns (cached, fetched) \<Rightarrow> Returns (a\<lparr>metadataCache := cached\<rparr>, fetched))"

definition getMetadataMap :: "Analyzer \<Rightarrow> string \<Rightarrow> TokenMetadata option" where
  "getMetadataMap a = metadataCache a"

fun Join :: "string list \<Rightarrow> string \<Rightarrow> string" where
  "Join [] sep = []"
| "Join [x] sep = x"
| "Join (x # y # ys) sep = x @ sep @ Join (y # ys) sep"

text \<open>\<open>buildSummary\<close>. \<open>tx.Signature[:6]\<close> and \<open>tx.Signature[len(tx.Signature)-6:]\<close> panic
  on a signature shorter than six bytes. Bytes outside printable ASCII are written by
  their code: \<open>0x0A\<close> is the line feed, \<open>0x22\<close> the double quote.\<close>

definition buildSummary ::
  "world \<Rightarrow> HeliusTransaction \<Rightarrow> string \<Rightarrow> string list \<Rightarrow> string list \<Rightarrow> string outcome" where
  "buildSummary W tx interpretation sent received =
     (let b1 = ''<b>'' @ interpretation @ ''</b>'' @ [CHR 0x0A];
          b2 = (if Description tx \<noteq> []
                then b1 @ [CHR 0xE2, CHR 0x84, CHR 0xB9, CHR 0xEF, CHR 0xB8, CHR 0x8F] @ '' <i>''
                     @ ReplaceAllStringFunc W (Description tx)
                         (\<lambda>a. if 8 < length a then take 4 a @ ''...'' @ drop (length a - 4) a else a)
                     @ ''</i>'' @ [CHR 0x0A]
                else b1);
          b3 = b2 @ [CHR 0x0A];
          b4 = (if sent \<noteq> []
                then b3 @ [CHR 0xF0, CHR 0x9F, CHR 0x92, CHR 0xB0] @ '' <b>Sent:</b> ''
                     @ Join sent '', '' @ [CHR 0x0A]
                else b3);
          b5 = (if received \<noteq> []
                then b4 @ [CHR 0xF0, CHR 0x9F, CHR 0x92, CHR 0xB8] @ '' <b>Received:</b> ''
                     @ Join received '', '' @ [CHR 0x0A]
                else b4)
      in if length (Signature tx) < 6 then Panics
         else Returns
                (b5 @ [CHR 0x0A] @ ''<a href='' @ [CHR 0x22] @ ''https://solscan.io/tx/''
                 @ Signature tx @ [CHR 0x22] @ ''>'' @ take 6 (Signature tx) @ ''...''
                 @ drop (length (Signature tx) - 6) (Signature tx) @ ''</a>''))"

text \<open>The closure \<open>addFormattedItem\<close> of \<open>parseSwapEvent\<close>, on a list and the oracle.\<close>

definition addFormattedItem ::
  "world \<Rightarrow> (string \<Rightarrow> TokenMetadata option) \<Rightarrow> string list \<times> (PriceOracle \<times> nat)
     \<Rightarrow> TokenSwapAmount \<Rightarrow> (string list \<times> (PriceOracle \<times> nat)) outcome" where
  "addFormattedItem W metadataMap acc item =
     (let amount = parseAmount W (raw_TokenAmount (tsa_RawTokenAmount item))
                     (raw_Decimals (tsa_RawTokenAmount item));
          meta = (case metadataMap (tsa_Mint item) of
                    Some m \<Rightarrow> m
                  | None \<Rightarrow> \<lparr>Symbol = ''Mint('' @ shortenAddress (tsa_Mint item) @ '')'',
                             Decimals = raw_Decimals (tsa_RawTokenAmount item)\<rparr>)
      in case formatHumanReadable amount of
           Panics \<Rightarrow> Panics
         | Returns h \<Rightarrow>
             (case (if snd (isPriceTracked (tsa_Mint item))
                    then appendUSD W (snd acc) (h @ '' '' @ Symbol meta) amount
                           (fst (isPriceTracked (tsa_Mint item)))
                    else (h @ '' '' @ Symbol meta, snd acc)) of
                (formattedStr, st') \<Rightarrow> Returns (fst acc @ [formattedStr], st')))"

text \<open>The two loops of \<open>parseSwapEvent\<close> over the legs of the swap event.\<close>

fun swapLegs ::
  "world \<Rightarrow> (string \<Rightarrow> TokenMetadata option) \<Rightarrow> string \<Rightarrow> TokenSwapAmount list
     \<Rightarrow> string list \<times> (PriceOracle \<times> nat) \<Rightarrow> (string list \<times> (PriceOracle \<times> nat)) outcome" where
  "swapLegs W metadataMap trackedAddr [] acc = Returns acc"
| "swapLegs W metadataMap trackedAddr (item # items) acc =
     (if tsa_UserAccount item = trackedAddr then
        (case addFormattedItem W metadataMap acc item of
           Panics \<Rightarrow> Panics
         | Returns acc' \<Rightarrow> swapLegs W metadataMap trackedAddr items acc')
      else swapLegs W metadataMap trackedAddr items acc)"

definition parseSwapEvent ::
  "world \<Rightarrow> HeliusTransaction \<Rightarrow> string \<Rightarrow> (string \<Rightarrow> TokenMetadata option) \<Rightarrow> PriceOracle \<times> nat
     \<Rightarrow> (string list \<times> string list \<times> (PriceOracle \<times> nat)) outcome" where
  "parseSwapEvent W tx trackedAddr metadataMap st =
     (case Swap (Events tx) of
        None \<Rightarrow> calculateNetBalanceChanges W tx trackedAddr metadataMap st
      | Some sw \<Rightarrow>
          (case swapLegs W metadataMap trackedAddr (TokenInputs sw) ([], st) of
             Panics \<Rightarrow> Panics
           | Returns (sent, st1) \<Rightarrow>
               (case swapLegs W metadataMap trackedAddr (TokenOutputs sw) ([], st1) of
                  Panics \<Rightarrow> Panics
                | Returns (received, st2) \<Rightarrow> Returns (sent, received, st2))))"

text \<open>The \<open>switch tx.Type\<close> of \<open>AnalyzeSignature\<close>: the headline and the two lists.\<close>

definition classify ::
  "world \<Rightarrow> HeliusTransaction \<Rightarrow> string \<Rightarrow> (string \<Rightarrow> TokenMetadata option) \<Rightarrow> PriceOracle \<times> nat
     \<Rightarrow> (string \<times> string list \<times> string list \<times> (PriceOracle \<times> nat)) outcome" where
  "classify W tx trackedAddr metadataMap st =
     (if Type tx = ''CREATE'' then
        (case calculateNetBalanceChanges W tx trackedAddr metadataMap st of
           Panics \<Rightarrow> Panics
         | Returns (sent, received, st') \<Rightarrow>
             Returns ([CHR 0xF0, CHR 0x9F, CHR 0xA7, CHR 0xB1] @ '' CREATE & BUY via '' @ Source tx
                        @ '': Bought '' @ (if received \<noteq> [] then hd received else ''new token''),
                      sent, received, st'))
      else if Type tx = ''SWAP'' then
        (case parseSwapEvent W tx trackedAddr metadataMap st of
           Panics \<Rightarrow> Panics
         | Returns (sent, received, st') \<Rightarrow>
             Returns ([CHR 0xF0, CHR 0x9F, CHR 0x94, CHR 0x81] @ '' SWAP via '' @ Source tx,
                      sent, received, st'))
      else
        (case calculateNetBalanceChanges W tx trackedAddr metadataMap st of
           Panics \<Rightarrow> Panics
         | Returns (sent, received, st') \<Rightarrow>
             Returns
               ((if sent \<noteq> [] \<and> received \<noteq> [] then
                   [CHR 0xE2, CHR 0x86, CHR 0x94, CHR 0xEF, CHR 0xB8, CHR 0x8F]
                   @ '' INTERACTION via '' @ Source tx
                 else if sent \<noteq> [] then
                   [CHR 0xE2, CHR 0xAC, CHR 0x86, CHR 0xEF, CHR 0xB8, CHR 0x8F]
                   @ '' SEND via '' @ Source tx
                 else if received \<noteq> [] then
                   [CHR 0xE2, CHR 0xAC, CHR 0x87, CHR 0xEF, CHR 0xB8, CHR 0x8F]
                   @ '' RECEIVE via '' @ Source tx
                 else
                   [CHR 0xE2, CHR 0x9A, CHR 0x99, CHR 0xEF, CHR 0xB8, CHR 0x8F] @ '' ''
                   @ ToTitle W (ToLower W (Type tx)) @ '' via '' @ Source tx),
                sent, received, st')))"

text \<open>
  \<open>AnalyzeSignature\<close> returns the pair \<open>(summary, err)\<close> of the Go function, with \<open>None\<close> for
  a \<open>nil\<close> error, and the analyzer after the call; or it panics.
\<close>

definition AnalyzeSignature ::
  "world \<Rightarrow> Analyzer \<Rightarrow> string \<Rightarrow> string \<Rightarrow> ((string \<times> error option) \<times> Analyzer) outcome" where
  "AnalyzeSignature W a signature trackedAddr =
     (case fetchHeliusTransaction W signature (HeliusTxURL a) of
        Inl err \<Rightarrow> Returns (([], Some (ErrFetchTx signature err)), a)
      | Inr tx \<Rightarrow>
          if shouldFilter tx trackedAddr then Returns (([], None), a)
          else
            (case ensureMetadataIsCached W a tx of
               Panics \<Rightarrow> Panics
             | Returns (a1, fetched) \<Rightarrow>
                 (case classify W tx trackedAddr (getMetadataMap a1) (priceOracle a1, 0) of
                    Panics \<Rightarrow> Panics
                  | Returns (interpretation, sent, received, st) \<Rightarrow>
                      (case buildSummary W tx interpretation sent received of
                         Panics \<Rightarrow> Panics
                       | Returns summary \<Rightarrow>
                           Returns ((summary, None), a1\<lparr>priceOracle := fst st\<rparr>)))))"


subsection \<open>Example inputs\<close>

text \<open>
  A world whose enrichment service answers 200 with the given transactions, whose metadata
  lookups fail with an error and whose price service cannot be reached. \<open>range\<close> visits
  a map in insertion order, \<open>ParseFloat\<close> reads a string of decimal digits.
\<close>

definition parseDigits :: "string \<Rightarrow> real" where
  "parseDigits s = real (foldl (\<lambda>n c. 10 * n + (of_char c - 48)) 0 s)"

definition exampleWorld :: "HeliusTransaction list \<Rightarrow> world" where
  "exampleWorld txs =
     \<lparr>heliusHTTP = (\<lambda>url signature. HeliusResponse 200 [] (Some txs)),
      fetchOnChainMetadata = (\<lambda>mint rpcURL. Returns (Inl ErrMetadata)),
      priceWorld = (\<lambda>k. (\<lambda>url. TransportError, 0, 0)),
      rangeDeltas = (\<lambda>xs. xs),
      rangeMints = (\<lambda>xs. xs),
      ParseFloat = parseDigits,
      Pow10 = (\<lambda>n. if 0 \<le> n then 10 ^ nat n else 1 / 10 ^ nat (- n)),
      ToTitle = (\<lambda>s. s),
      ToLower = (\<lambda>s. s),
      ReplaceAllStringFunc = (\<lambda>src f. src)\<rparr>"

text \<open>A transfer of 0.001 SOL out of the tracked wallet.\<close>

definition sendTx :: HeliusTransaction where
  "sendTx =
     \<lparr>Signature = ''5VERv8NMvzbJMEkV8xnrLkEaWRtSz9CosKDYjCJjBRnbJLgp8uirBgmQpjKhoR4tjF3ZpRzrFmBV6UjKdiSZkQUW'',
      Timestamp = 1700000000, Fee = 5000, FeePayer = ''Wallet1'', Type = ''TRANSFER'',
      Source = ''SYSTEM_PROGRAM'', Description = '''', TokenTransfers = [],
      NativeTransfers = [\<lparr>nt_FromUserAccount = ''Wallet1'', nt_ToUserAccount = ''Wallet2'', Amount = 995000\<rparr>],
      AccountData = [\<lparr>Account = ''Wallet1'', NativeBalanceChange = - 1000000, TokenBalanceChanges = []\<rparr>,
                     \<lparr>Account = ''Wallet2'', NativeBalanceChange = 995000, TokenBalanceChanges = []\<rparr>],
      TransactionError = None, Events = \<lparr>Swap = None\<rparr>\<rparr>"

text \<open>The same record with a signature field of three bytes.\<close>

definition shortSignatureTx :: HeliusTransaction where
  "shortSignatureTx = sendTx\<lparr>Signature := ''abc''\<rparr>"

text \<open>The same record without its \<open>signature\<close> field, which then decodes to the empty
  string.\<close>

definition noSignatureTx :: HeliusTransaction where
  "noSignatureTx = sendTx\<lparr>Signature := []\<rparr>"




section \<open>Theorems\<close>

subsection \<open>The price oracle\<close>

lemma GetPriceUSD_fresh:
  assumes "cache orc c = Some v" and "Since now (LastFetched v) < 60 * Second"
  shows "GetPriceUSD http now later orc c = ((Price v, True), orc, [])"
  using assms by (simp add: GetPriceUSD_def)

lemma GetPriceUSD_stale_requests:
  assumes "\<not> fresh orc now c"
  shows "snd (snd (GetPriceUSD http now later orc c)) = [priceURL c]"
  using assms
  by (auto simp: GetPriceUSD_def fresh_def Let_def
           split: option.splits price_response.splits if_splits)

lemma GetPriceUSD_stale_noPrice:
  assumes "\<not> fresh orc now c" and "noPrice (http (priceURL c)) c"
  shows "GetPriceUSD http now later orc c = ((0, False), orc, [priceURL c])"
  using assms
  by (auto simp: GetPriceUSD_def fresh_def noPrice_def Let_def
           split: option.splits price_response.splits if_splits)

lemma GetPriceUSD_stale_price:
  assumes "\<not> fresh orc now c" and "http (priceURL c) = Body result"
    and "result c = Some pd" and "pd ''usd'' = Some p"
  shows "GetPriceUSD http now later orc c =
           ((p, True), orc\<lparr>cache := (cache orc)(c \<mapsto> \<lparr>Price = p, LastFetched = later\<rparr>)\<rparr>,
            [priceURL c])"
  using assms
  by (auto simp: GetPriceUSD_def fresh_def Let_def split: option.splits if_splits)

text \<open>
  C7. \<open>GetPriceUSD\<close> returns the cached price with \<open>ok = true\<close> and makes no request
  whenever the entry of the asset class was stored less than 60 seconds ago. Otherwise it
  makes exactly one request, and when the exchange fails or the response holds no price for
  the asset it returns \<open>(0, false)\<close>: a value, not an error.
\<close>

theorem GetPriceUSD_contract:
  "(\<forall>v. cache orc c = Some v \<and> Since now (LastFetched v) < 60 * Second \<longrightarrow>
        GetPriceUSD http now later orc c = ((Price v, True), orc, []))
   \<and> (\<not> fresh orc now c \<longrightarrow>
        snd (snd (GetPriceUSD http now later orc c)) = [priceURL c]
        \<and> (noPrice (http (priceURL c)) c \<longrightarrow>
             fst (GetPriceUSD http now later orc c) = (0, False)))"
  by (simp add: GetPriceUSD_fresh GetPriceUSD_stale_requests GetPriceUSD_stale_noPrice)

theorem GetPriceUSD_contract_witness:
  "fst (GetPriceUSD (\<lambda>u. TransportError) (10 * Second) (11 * Second)
          \<lparr>cache = [''solana'' \<mapsto> \<lparr>Price = 150, LastFetched = 0\<rparr>]\<rparr> ''solana'') = (150, True)
   \<and> snd (snd (GetPriceUSD (\<lambda>u. TransportError) (10 * Second) (11 * Second)
          \<lparr>cache = [''solana'' \<mapsto> \<lparr>Price = 150, LastFetched = 0\<rparr>]\<rparr> ''solana'')) = []
   \<and> snd (snd (GetPriceUSD (\<lambda>u. TransportError) (100 * Second) (101 * Second)
          \<lparr>cache = [''solana'' \<mapsto> \<lparr>Price = 150, LastFetched = 0\<rparr>]\<rparr> ''solana''))
        = [priceURL ''solana'']
   \<and> fst (GetPriceUSD (\<lambda>u. TransportError) (100 * Second) (101 * Second)
          \<lparr>cache = [''solana'' \<mapsto> \<lparr>Price = 150, LastFetched = 0\<rparr>]\<rparr> ''solana'') = (0, False)"
  using GetPriceUSD_contract [of "\<lparr>cache = [''solana'' \<mapsto> \<lparr>Price = 150, LastFetched = 0\<rparr>]\<rparr>"
          "''solana''" "10 * Second" "\<lambda>u. TransportError" "11 * Second"]
        GetPriceUSD_contract [of "\<lparr>cache = [''solana'' \<mapsto> \<lparr>Price = 150, LastFetched = 0\<rparr>]\<rparr>"
          "''solana''" "100 * Second" "\<lambda>u. TransportError" "101 * Second"]
  by (simp add: fresh_def noPrice_def Since_def Second_def)

text \<open>
  C10. When the entry of an asset class is 60 seconds old or older and the refetch gives no
  price (transport error, or no entry or no \<open>usd\<close> key in the response), \<open>GetPriceUSD\<close>
  returns \<open>(0, false)\<close>, not the stale price, and leaves the cache as it was. The cache
  changes only in a call whose fetch gave a price, which is then the price returned.
\<close>

theorem GetPriceUSD_stale_refetch_fails:
  "(cache orc c = Some v \<and> 60 * Second \<le> Since now (LastFetched v)
      \<and> noPrice (http (priceURL c)) c \<longrightarrow>
      GetPriceUSD http now later orc c = ((0, False), orc, [priceURL c]))
   \<and> (fst (snd (GetPriceUSD http now later orc c)) \<noteq> orc \<longrightarrow>
        (\<exists>result pd p. http (priceURL c) = Body result \<and> result c = Some pd
            \<and> pd ''usd'' = Some p
            \<and> GetPriceUSD http now later orc c =
                ((p, True),
                 orc\<lparr>cache := (cache orc)(c \<mapsto> \<lparr>Price = p, LastFetched = later\<rparr>)\<rparr>,
                 [priceURL c])))"
proof (intro conjI impI)
  assume a: "cache orc c = Some v \<and> 60 * Second \<le> Since now (LastFetched v)
      \<and> noPrice (http (priceURL c)) c"
  then have "\<not> fresh orc now c" by (simp add: fresh_def)
  with a show "GetPriceUSD http now later orc c = ((0, False), orc, [priceURL c])"
    by (simp add: GetPriceUSD_stale_noPrice)
next
  assume ch: "fst (snd (GetPriceUSD http now later orc c)) \<noteq> orc"
  have st: "\<not> fresh orc now c"
  proof
    assume "fresh orc now c"
    then obtain w where "cache orc c = Some w" "Since now (LastFetched w) < 60 * Second"
      by (auto simp: fresh_def split: option.splits)
    then have "fst (snd (GetPriceUSD http now later orc c)) = orc"
      by (simp add: GetPriceUSD_fresh)
    with ch show False by simp
  qed
  have np: "\<not> noPrice (http (priceURL c)) c"
  proof
    assume "noPrice (http (priceURL c)) c"
    with st have "fst (snd (GetPriceUSD http now later orc c)) = orc"
      by (simp add: GetPriceUSD_stale_noPrice)
    with ch show False by simp
  qed
  then obtain result pd p where r: "http (priceURL c) = Body result" "result c = Some pd"
      "pd ''usd'' = Some p"
    by (auto simp: noPrice_def split: price_response.splits option.splits)
  show "\<exists>result pd p. http (priceURL c) = Body result \<and> result c = Some pd
            \<and> pd ''usd'' = Some p
            \<and> GetPriceUSD http now later orc c =
                ((p, True),
                 orc\<lparr>cache := (cache orc)(c \<mapsto> \<lparr>Price = p, LastFetched = later\<rparr>)\<rparr>,
                 [priceURL c])"
    using GetPriceUSD_stale_price [where http = http and result = result and later = later, OF st r] r
    by blast
qed

theorem GetPriceUSD_stale_refetch_fails_witness:
  "GetPriceUSD (\<lambda>u. Body Map.empty) (61 * Second) (62 * Second)
      \<lparr>cache = [''usd-coin'' \<mapsto> \<lparr>Price = 1, LastFetched = Second\<rparr>]\<rparr> ''usd-coin''
   = ((0, False), \<lparr>cache = [''usd-coin'' \<mapsto> \<lparr>Price = 1, LastFetched = Second\<rparr>]\<rparr>,
      [priceURL ''usd-coin''])"
  using GetPriceUSD_stale_refetch_fails
          [of "\<lparr>cache = [''usd-coin'' \<mapsto> \<lparr>Price = 1, LastFetched = Second\<rparr>]\<rparr>" "''usd-coin''"
              "\<lparr>Price = 1, LastFetched = Second\<rparr>" "61 * Second" "\<lambda>u. Body Map.empty" "62 * Second"]
  by (simp add: noPrice_def Since_def Second_def)

subsection \<open>The stream subscriber\<close>

lemma handleMessage_cases:
  "handleMessage unmarshal notify now later s msg = (fl, s', calls) \<Longrightarrow>
     (calls = [] \<and> (s' = s \<or> (\<exists>sg. s' = s\<lparr>dedupeCache := (dedupeCache s)(sg \<mapsto> later)\<rparr>)))
     \<or> (fl = Continue \<and> (\<exists>sg. calls = [(sg, addr s)]
            \<and> s' = s\<lparr>dedupeCache := (dedupeCache s)(sg \<mapsto> later)\<rparr>))"
  by (auto simp: handleMessage_def isDuplicate_def Let_def split: option.splits if_splits)

lemma handleMessage_recent:
  assumes "handleMessage unmarshal notify now later s msg = (fl, s', calls)"
    and "dedupeCache s sig = Some ts" and "t0 \<le> ts" and "t0 \<le> later" and "now < t0 + 30 * Second"
  shows "fired sig calls = 0 \<and> (\<exists>ts'. dedupeCache s' sig = Some ts' \<and> t0 \<le> ts')"
  using assms
  by (auto simp: handleMessage_def isDuplicate_def Let_def fired_def Since_def
           split: option.splits if_splits)

lemma cleanCache_recent:
  assumes "dedupeCache s sig = Some ts" and "t0 \<le> ts" and "clk sig < t0 + 30 * Second"
  shows "dedupeCache (cleanCache clk s) sig = Some ts"
  using assms by (simp add: cleanCache_def Since_def Minute_def Second_def)

lemma fired_append: "fired sig (xs @ ys) = fired sig xs + fired sig ys"
  by (simp add: fired_def)

lemma withinWindow_Cons:
  "withinWindow t0 d sig (ev # evs) =
     ((\<forall>r \<in> set (readings ev sig). t0 \<le> r \<and> r < t0 + d) \<and> withinWindow t0 d sig evs)"
  by (simp add: withinWindow_def)

lemma readLoop_recent:
  "dedupeCache s sig = Some ts \<Longrightarrow> t0 \<le> ts \<Longrightarrow> withinWindow t0 (30 * Second) sig evs \<Longrightarrow>
     fired sig (snd (snd (readLoop unmarshal notify s evs))) = 0"
proof (induction evs arbitrary: s ts)
  case Nil
  then show ?case by (simp add: fired_def)
next
  case (Cons ev evs)
  from Cons.prems(3) have w: "withinWindow t0 (30 * Second) sig evs"
    by (simp add: withinWindow_Cons)
  show ?case
  proof (cases ev)
    case (Tick clk)
    with Cons.prems have "dedupeCache (cleanCache clk s) sig = Some ts"
      by (intro cleanCache_recent) (auto simp: withinWindow_Cons)
    from Cons.IH [OF this Cons.prems(2) w] Tick show ?thesis by simp
  next
    case (ReadMessage m now later)
    show ?thesis
    proof (cases m)
      case None
      with ReadMessage show ?thesis by (simp add: fired_def)
    next
      case (Some msg)
      obtain fl s' calls where h: "handleMessage unmarshal notify now later s msg = (fl, s', calls)"
        by (cases "handleMessage unmarshal notify now later s msg") auto
      from Cons.prems(3) ReadMessage have "t0 \<le> later" "now < t0 + 30 * Second"
        by (auto simp: withinWindow_Cons)
      from handleMessage_recent [OF h Cons.prems(1) Cons.prems(2) this]
      obtain ts' where r: "fired sig calls = 0" "dedupeCache s' sig = Some ts'" "t0 \<le> ts'"
        by blast
      from Cons.IH [OF r(2) r(3) w]
      have "fired sig (snd (snd (readLoop unmarshal notify s' evs))) = 0" .
      with h r(1) ReadMessage Some show ?thesis
        by (cases fl) (auto simp: fired_append split: prod.splits)
    qed
  qed
qed

lemma readLoop_at_most_once:
  "withinWindow t0 (30 * Second) sig evs \<Longrightarrow>
     fired sig (snd (snd (readLoop unmarshal notify s evs))) \<le> 1"
proof (induction evs arbitrary: s)
  case Nil
  then show ?case by (simp add: fired_def)
next
  case (Cons ev evs)
  from Cons.prems have w: "withinWindow t0 (30 * Second) sig evs"
    by (simp add: withinWindow_Cons)
  show ?case
  proof (cases ev)
    case (Tick clk)
    with Cons.IH [OF w] show ?thesis by simp
  next
    case (ReadMessage m now later)
    show ?thesis
    proof (cases m)
      case None
      with ReadMessage show ?thesis by (simp add: fired_def)
    next
      case (Some msg)
      obtain fl s' calls where h: "handleMessage unmarshal notify now later s msg = (fl, s', calls)"
        by (cases "handleMessage unmarshal notify now later s msg") auto
      from Cons.prems ReadMessage have l: "t0 \<le> later"
        by (auto simp: withinWindow_Cons)
      show ?thesis
      proof (cases "fired sig calls = 0")
        case True
        with Cons.IH [OF w, of s'] h ReadMessage Some show ?thesis
          by (cases fl) (auto simp: fired_append split: prod.splits)
      next
        case False
        with handleMessage_cases [OF h]
        have c: "fl = Continue" "calls = [(sig, addr s)]"
            "s' = s\<lparr>dedupeCache := (dedupeCache s)(sig \<mapsto> later)\<rparr>"
          by (auto simp: fired_def split: if_splits)
        then have "dedupeCache s' sig = Some later" by simp
        from readLoop_recent [OF this l w]
        have "fired sig (snd (snd (readLoop unmarshal notify s' evs))) = 0" .
        with h c ReadMessage Some show ?thesis
          by (auto simp: fired_append fired_def split: prod.splits)
      qed
    qed
  qed
qed

text \<open>
  C4. The first \<open>isDuplicate\<close> call for a signature (no entry yet) records it and returns
  false; while the recorded entry is less than 30 seconds old every further call returns
  true and leaves the subscriber as it is, so the next repeat call sees the same entry.
  Consequently, over any run of the read loop whose clock readings all lie within one
  30-second window, whatever the starting cache and whatever the cleaner does in between,
  the callback is invoked at most once for a signature, however often it is delivered.
\<close>

theorem isDuplicate_at_most_once:
  "(dedupeCache s sig = None \<longrightarrow>
      isDuplicate now later s sig = (False, s\<lparr>dedupeCache := (dedupeCache s)(sig \<mapsto> later)\<rparr>))
   \<and> (\<forall>ts. dedupeCache s sig = Some ts \<and> Since now ts < 30 * Second \<longrightarrow>
          isDuplicate now later s sig = (True, s))
   \<and> (withinWindow t0 (30 * Second) sig evs \<longrightarrow>
          fired sig (snd (snd (readLoop unmarshal notify s evs))) \<le> 1)"
  using readLoop_at_most_once [of t0 sig evs unmarshal notify s]
  by (simp add: isDuplicate_def)

theorem isDuplicate_at_most_once_witness:
  "isDuplicate Second Second (NewSubscriber id ''wss://rpc'' ''confirmed'' ''Wallet1'')
       ''5sigAAAAAAAAAAAAAAAA''
     = (False, \<lparr>wss = ''wss://rpc'', addr = ''Wallet1'', commitment = ''confirmed'',
                dedupeCache = [''5sigAAAAAAAAAAAAAAAA'' \<mapsto> Second]\<rparr>)
   \<and> isDuplicate (29 * Second) (29 * Second)
        \<lparr>wss = ''wss://rpc'', addr = ''Wallet1'', commitment = ''confirmed'',
         dedupeCache = [''5sigAAAAAAAAAAAAAAAA'' \<mapsto> Second]\<rparr> ''5sigAAAAAAAAAAAAAAAA''
     = (True, \<lparr>wss = ''wss://rpc'', addr = ''Wallet1'', commitment = ''confirmed'',
               dedupeCache = [''5sigAAAAAAAAAAAAAAAA'' \<mapsto> Second]\<rparr>)
   \<and> fired ''5sigAAAAAAAAAAAAAAAA''
        (snd (snd (readLoop
           (\<lambda>m. Some \<lparr>Method = ''logsNotification'', Params_Result_Value_Signature = m,
                       Params_Result_Value_Err = None\<rparr>)
           True (NewSubscriber id ''wss://rpc'' ''confirmed'' ''Wallet1'')
           [ReadMessage (Some ''5sigAAAAAAAAAAAAAAAA'') Second Second,
            Tick (\<lambda>sg. 2 * Second),
            ReadMessage (Some ''5sigAAAAAAAAAAAAAAAA'') (3 * Second) (3 * Second)]))) \<le> 1"
  using isDuplicate_at_most_once
          [of "NewSubscriber id ''wss://rpc'' ''confirmed'' ''Wallet1''" "''5sigAAAAAAAAAAAAAAAA''"
              Second Second Second
              "[ReadMessage (Some ''5sigAAAAAAAAAAAAAAAA'') Second Second,
                Tick (\<lambda>sg. 2 * Second),
                ReadMessage (Some ''5sigAAAAAAAAAAAAAAAA'') (3 * Second) (3 * Second)]"
              "\<lambda>m. Some \<lparr>Method = ''logsNotification'', Params_Result_Value_Signature = m,
                       Params_Result_Value_Err = None\<rparr>" True]
        isDuplicate_at_most_once
          [of "\<lparr>wss = ''wss://rpc'', addr = ''Wallet1'', commitment = ''confirmed'',
                dedupeCache = [''5sigAAAAAAAAAAAAAAAA'' \<mapsto> Second]\<rparr>" "''5sigAAAAAAAAAAAAAAAA''"
              "29 * Second" "29 * Second"]
  by (simp add: NewSubscriber_def withinWindow_def Since_def Second_def)

lemma readLoop_example_fires_once:
  "snd (snd (readLoop
           (\<lambda>m. Some \<lparr>Method = ''logsNotification'', Params_Result_Value_Signature = m,
                       Params_Result_Value_Err = None\<rparr>)
           True (NewSubscriber id ''wss://rpc'' ''confirmed'' ''Wallet1'')
           [ReadMessage (Some ''5sigAAAAAAAAAAAAAAAA'') Second Second,
            Tick (\<lambda>sg. 2 * Second),
            ReadMessage (Some ''5sigAAAAAAAAAAAAAAAA'') (3 * Second) (3 * Second)]))
     = [(''5sigAAAAAAAAAAAAAAAA'', ''Wallet1'')]"
  by (simp add: NewSubscriber_def handleMessage_def isDuplicate_def cleanCache_def
        Since_def Second_def Minute_def Let_def)

text \<open>
  C6. In the read loop, a message that fails JSON decoding, whose method is not
  \<open>logsNotification\<close>, whose signature is empty or whose \<open>err\<close> is not null ends its
  iteration with \<open>continue\<close>: no callback, the subscriber unchanged, and the loop goes on
  with the next event on the same connection. For every other message the signature is
  taken from the notification: after the iteration it has an entry in the dedup cache, a
  callback of the iteration can only carry this signature and the subscriber's address,
  and it is made when the signature is no duplicate, the callback is registered and the
  signature has the 16 bytes the log line slices.
\<close>

theorem readLoop_discards:
  "((unmarshal msg = None
      \<or> (\<exists>n. unmarshal msg = Some n
             \<and> (Method n \<noteq> ''logsNotification'' \<or> Params_Result_Value_Signature n = []
                  \<or> Params_Result_Value_Err n \<noteq> None))) \<longrightarrow>
       handleMessage unmarshal notify now later s msg = (Continue, s, [])
       \<and> readLoop unmarshal notify s (ReadMessage (Some msg) now later # evs)
           = readLoop unmarshal notify s evs)
   \<and> (\<forall>n. unmarshal msg = Some n \<and> Method n = ''logsNotification''
          \<and> Params_Result_Value_Signature n \<noteq> [] \<and> Params_Result_Value_Err n = None \<longrightarrow>
          dedupeCache (fst (snd (handleMessage unmarshal notify now later s msg)))
             (Params_Result_Value_Signature n) \<noteq> None
          \<and> set (snd (snd (handleMessage unmarshal notify now later s msg)))
               \<subseteq> {(Params_Result_Value_Signature n, addr s)}
          \<and> (\<not> fst (isDuplicate now later s (Params_Result_Value_Signature n))
               \<and> 16 \<le> length (Params_Result_Value_Signature n) \<and> notify \<longrightarrow>
               snd (snd (handleMessage unmarshal notify now later s msg))
                 = [(Params_Result_Value_Signature n, addr s)]))"
proof (intro conjI impI allI)
  assume bad: "unmarshal msg = None
      \<or> (\<exists>n. unmarshal msg = Some n
             \<and> (Method n \<noteq> ''logsNotification'' \<or> Params_Result_Value_Signature n = []
                  \<or> Params_Result_Value_Err n \<noteq> None))"
  then show h: "handleMessage unmarshal notify now later s msg = (Continue, s, [])"
    by (auto simp: handleMessage_def)
  then show "readLoop unmarshal notify s (ReadMessage (Some msg) now later # evs)
           = readLoop unmarshal notify s evs"
    by (simp split: prod.splits)
next
  fix n
  assume good: "unmarshal msg = Some n \<and> Method n = ''logsNotification''
          \<and> Params_Result_Value_Signature n \<noteq> [] \<and> Params_Result_Value_Err n = None"
  then show "dedupeCache (fst (snd (handleMessage unmarshal notify now later s msg)))
             (Params_Result_Value_Signature n) \<noteq> None"
    by (auto simp: handleMessage_def isDuplicate_def Let_def split: option.splits)
  from good show "set (snd (snd (handleMessage unmarshal notify now later s msg)))
               \<subseteq> {(Params_Result_Value_Signature n, addr s)}"
    by (auto simp: handleMessage_def isDuplicate_def Let_def split: option.splits)
  assume "\<not> fst (isDuplicate now later s (Params_Result_Value_Signature n))
               \<and> 16 \<le> length (Params_Result_Value_Signature n) \<and> notify"
  with good show "snd (snd (handleMessage unmarshal notify now later s msg))
                 = [(Params_Result_Value_Signature n, addr s)]"
    by (auto simp: handleMessage_def isDuplicate_def Let_def split: option.splits)
qed

theorem readLoop_discards_witness:
  "readLoop
      (\<lambda>m. if m = ''{'' then None
            else Some \<lparr>Method = ''logsNotification'', Params_Result_Value_Signature = m,
                       Params_Result_Value_Err = (if m = ''failedfailedfailed'' then Some ''{}'' else None)\<rparr>)
      True (NewSubscriber id ''wss://rpc'' ''confirmed'' ''Wallet1'')
      [ReadMessage (Some ''{'') 1 1, ReadMessage (Some ''failedfailedfailed'') 2 2]
     = (Continue, NewSubscriber id ''wss://rpc'' ''confirmed'' ''Wallet1'', [])
   \<and> snd (snd (handleMessage
      (\<lambda>m. if m = ''{'' then None
            else Some \<lparr>Method = ''logsNotification'', Params_Result_Value_Signature = m,
                       Params_Result_Value_Err = (if m = ''failedfailedfailed'' then Some ''{}'' else None)\<rparr>)
      True 3 3 (NewSubscriber id ''wss://rpc'' ''confirmed'' ''Wallet1'') ''5sigAAAAAAAAAAAAAAAA''))
     = [(''5sigAAAAAAAAAAAAAAAA'', ''Wallet1'')]"
  using readLoop_discards
          [of "\<lambda>m. if m = ''{'' then None
            else Some \<lparr>Method = ''logsNotification'', Params_Result_Value_Signature = m,
                       Params_Result_Value_Err = (if m = ''failedfailedfailed'' then Some ''{}'' else None)\<rparr>"
              "''{''" True 1 1 "NewSubscriber id ''wss://rpc'' ''confirmed'' ''Wallet1''"
              "[ReadMessage (Some ''failedfailedfailed'') 2 2]"]
        readLoop_discards
          [of "\<lambda>m. if m = ''{'' then None
            else Some \<lparr>Method = ''logsNotification'', Params_Result_Value_Signature = m,
                       Params_Result_Value_Err = (if m = ''failedfailedfailed'' then Some ''{}'' else None)\<rparr>"
              "''failedfailedfailed''" True 2 2 "NewSubscriber id ''wss://rpc'' ''confirmed'' ''Wallet1''"
              "[]"]
        readLoop_discards
          [of "\<lambda>m. if m = ''{'' then None
            else Some \<lparr>Method = ''logsNotification'', Params_Result_Value_Signature = m,
                       Params_Result_Value_Err = (if m = ''failedfailedfailed'' then Some ''{}'' else None)\<rparr>"
              "''5sigAAAAAAAAAAAAAAAA''" True 3 3 "NewSubscriber id ''wss://rpc'' ''confirmed'' ''Wallet1''"
              "[]"]
  by (simp add: NewSubscriber_def isDuplicate_def)

subsection \<open>Filtering\<close>

lemma hasOtherTokens_iff:
  "hasOtherTokens tts a \<longleftrightarrow>
     (\<exists>tt \<in> set tts. Mint tt \<noteq> wsolMint \<and> (FromUserAccount tt = a \<or> ToUserAccount tt = a))"
  by (induction tts) auto

lemma shouldFilter_iff:
  "shouldFilter tx a \<longleftrightarrow>
     (TransactionError tx = None \<or> TransactionError tx = Some ''null'')
     \<and> \<not> hasOtherTokens (TokenTransfers tx) a
     \<and> \<bar>real_of_int (sint (nativeChange (AccountData tx) a)) / lamportsPerSol\<bar> < filterThreshold"
  by (cases "TransactionError tx") (auto simp: shouldFilter_def)

text \<open>
  C2, as stated, fails: a transaction that failed on-chain is never filtered, although no
  token moved for the tracked wallet and its native change is dust.
\<close>

theorem shouldFilter_failed_tx_counterexample:
  "\<not> hasOtherTokens (TokenTransfers failedFeeOnlyTx) ''Wallet1''
   \<and> \<bar>real_of_int (sint (nativeChange (AccountData failedFeeOnlyTx) ''Wallet1'')) / lamportsPerSol\<bar>
       < filterThreshold
   \<and> \<not> shouldFilter failedFeeOnlyTx ''Wallet1''"
  by (simp add: failedFeeOnlyTx_def shouldFilter_def lamportsPerSol_def filterThreshold_def)

text \<open>
  C2, amended. For every transaction that did not fail on-chain (\<open>transactionError\<close> is
  absent or the literal \<open>null\<close>), in which no token other than the wrapped-native mint
  appears in a token transfer with the watched address as sender or receiver, and whose
  absolute native balance change for the watched address is below 0.0001 native units,
  \<open>shouldFilter\<close> returns true.
\<close>

theorem shouldFilter_dust:
  assumes "TransactionError tx = None \<or> TransactionError tx = Some ''null''"
    and "\<forall>tt \<in> set (TokenTransfers tx).
           Mint tt \<noteq> wsolMint \<longrightarrow> FromUserAccount tt \<noteq> a \<and> ToUserAccount tt \<noteq> a"
    and "\<bar>real_of_int (sint (nativeChange (AccountData tx) a)) / 1000000000\<bar> < 1 / 10000"
  shows "shouldFilter tx a"
proof -
  from assms(2) have "\<not> hasOtherTokens (TokenTransfers tx) a"
    by (auto simp: hasOtherTokens_iff)
  with assms(1,3) show ?thesis
    by (simp add: shouldFilter_iff lamportsPerSol_def filterThreshold_def)
qed

theorem shouldFilter_dust_witness:
  "shouldFilter (failedFeeOnlyTx\<lparr>TransactionError := None\<rparr>) ''Wallet1''"
  using shouldFilter_dust [of "failedFeeOnlyTx\<lparr>TransactionError := None\<rparr>" "''Wallet1''"]
  by (simp add: failedFeeOnlyTx_def)

subsection \<open>The analysis engine\<close>

lemma buildSummary_Panics_iff:
  "buildSummary W tx interpretation sent received = Panics \<longleftrightarrow> length (Signature tx) < 6"
  by (simp add: buildSummary_def Let_def)

lemma buildSummary_nonempty:
  "buildSummary W tx interpretation sent received = Returns summary \<Longrightarrow> summary \<noteq> []"
  by (auto simp: buildSummary_def Let_def split: if_splits)

lemma AnalyzeSignature_fetch_error:
  "fetchHeliusTransaction W signature (HeliusTxURL a) = Inl err \<Longrightarrow>
     AnalyzeSignature W a signature trackedAddr = Returns (([], Some (ErrFetchTx signature err)), a)"
  by (simp add: AnalyzeSignature_def)

lemma AnalyzeSignature_filtered:
  "fetchHeliusTransaction W signature (HeliusTxURL a) = Inr tx \<Longrightarrow> shouldFilter tx trackedAddr \<Longrightarrow>
     AnalyzeSignature W a signature trackedAddr = Returns (([], None), a)"
  by (simp add: AnalyzeSignature_def)

lemma AnalyzeSignature_unfiltered:
  assumes "fetchHeliusTransaction W signature (HeliusTxURL a) = Inr tx"
    and "\<not> shouldFilter tx trackedAddr"
  shows "AnalyzeSignature W a signature trackedAddr = Panics
         \<or> (\<exists>a1 fetched interpretation sent received st summary.
               ensureMetadataIsCached W a tx = Returns (a1, fetched)
               \<and> classify W tx trackedAddr (getMetadataMap a1) (priceOracle a1, 0)
                     = Returns (interpretation, sent, received, st)
               \<and> buildSummary W tx interpretation sent received = Returns summary
               \<and> AnalyzeSignature W a signature trackedAddr
                     = Returns ((summary, None), a1\<lparr>priceOracle := fst st\<rparr>))"
  using assms by (auto simp: AnalyzeSignature_def split: outcome.splits prod.splits)

lemma AnalyzeSignature_short_signature:
  assumes "fetchHeliusTransaction W signature (HeliusTxURL a) = Inr tx"
    and "\<not> shouldFilter tx trackedAddr" and "length (Signature tx) < 6"
  shows "AnalyzeSignature W a signature trackedAddr = Panics"
  using AnalyzeSignature_unfiltered [OF assms(1,2)] assms(3)
  by (auto simp: buildSummary_def Let_def)

lemma AnalyzeSignature_summary:
  assumes "AnalyzeSignature W a signature trackedAddr = Returns ((summary, None), a')"
    and "summary \<noteq> []"
  shows "\<exists>tx. fetchHeliusTransaction W signature (HeliusTxURL a) = Inr tx
            \<and> \<not> shouldFilter tx trackedAddr \<and> 6 \<le> length (Signature tx)"
proof (cases "fetchHeliusTransaction W signature (HeliusTxURL a)")
  case (Inl err)
  with assms show ?thesis by (simp add: AnalyzeSignature_fetch_error)
next
  case (Inr tx)
  show ?thesis
  proof (cases "shouldFilter tx trackedAddr")
    case True
    with Inr assms show ?thesis by (simp add: AnalyzeSignature_filtered)
  next
    case False
    have "6 \<le> length (Signature tx)"
    proof (rule ccontr)
      assume "\<not> 6 \<le> length (Signature tx)"
      then have "length (Signature tx) < 6" by simp
      from AnalyzeSignature_short_signature [OF Inr False this] assms(1) show False by simp
    qed
    with Inr False show ?thesis by simp
  qed
qed
text \<open>One analysis traced through: the 0.001 SOL transfer in the example world.\<close>

lemma sendTx_fetch:
  "fetchHeliusTransaction (exampleWorld [sendTx]) signature url = Inr sendTx"
  by (simp add: fetchHeliusTransaction_def exampleWorld_def)

lemma sendTx_unfiltered: "\<not> shouldFilter sendTx ''Wallet1''"
  by (simp add: shouldFilter_def sendTx_def lamportsPerSol_def filterThreshold_def)

lemma sendTx_ensure:
  "ensureMetadataIsCached (exampleWorld txs) a sendTx = Returns (a, [])"
  by (simp add: ensureMetadataIsCached_def collectMints_def exampleWorld_def sendTx_def)

lemma sendTx_netChanges: "netChanges sendTx ''Wallet1'' = (- (1 / 1000), [])"
  by (simp add: netChanges_def sendTx_def lamportsPerSol_def getDelta_def)

lemma formatHumanReadable_milli: "formatHumanReadable (1 / 1000) = Returns ''0.001''"
  by code_simp

lemma exampleWorld_appendUSD:
  "appendUSD (exampleWorld txs) (NewPriceOracle, k) s x c = (s, (NewPriceOracle, Suc k))"
  by (simp add: appendUSD_def callOracle_def exampleWorld_def GetPriceUSD_def NewPriceOracle_def)

lemma sendTx_calculate:
  "calculateNetBalanceChanges (exampleWorld txs) sendTx ''Wallet1'' m (NewPriceOracle, 0)
     = Returns ([''0.001 SOL''], [], (NewPriceOracle, Suc 0))"
proof -
  have "emitSol (exampleWorld txs) (NewPriceOracle, 0) (- (1 / 1000))
          = Returns ([''0.001 SOL''], [], (NewPriceOracle, Suc 0))"
    by (simp add: emitSol_def formatHumanReadable_milli exampleWorld_appendUSD)
  moreover have "rangeDeltas (exampleWorld txs) [] = []"
    by (simp add: exampleWorld_def)
  ultimately show ?thesis
    by (simp add: calculateNetBalanceChanges_def sendTx_netChanges)
qed

lemma sendTx_classify:
  "classify (exampleWorld txs) sendTx ''Wallet1'' m (NewPriceOracle, 0)
     = Returns ([CHR 0xE2, CHR 0xAC, CHR 0x86, CHR 0xEF, CHR 0xB8, CHR 0x8F] @ '' SEND via SYSTEM_PROGRAM'',
                [''0.001 SOL''], [], (NewPriceOracle, Suc 0))"
proof -
  have "Type sendTx = ''TRANSFER''" "Source sendTx = ''SYSTEM_PROGRAM''"
    by (simp_all add: sendTx_def)
  then show ?thesis
    by (simp add: classify_def sendTx_calculate)
qed

lemma sendTx_analysis:
  "\<exists>summary. AnalyzeSignature (exampleWorld [sendTx]) (New ''h'' ''r'') ''sig'' ''Wallet1''
       = Returns ((summary, None), New ''h'' ''r'') \<and> summary \<noteq> []"
proof -
  have l: "\<not> length (Signature sendTx) < 6" by (simp add: sendTx_def)
  then obtain summary where
    b: "buildSummary (exampleWorld [sendTx]) sendTx
          ([CHR 0xE2, CHR 0xAC, CHR 0x86, CHR 0xEF, CHR 0xB8, CHR 0x8F] @ '' SEND via SYSTEM_PROGRAM'')
          [''0.001 SOL''] [] = Returns summary"
    by (simp add: buildSummary_def Let_def)
  have p: "priceOracle (New ''h'' ''r'') = NewPriceOracle"
    "(New ''h'' ''r'')\<lparr>priceOracle := NewPriceOracle\<rparr> = New ''h'' ''r''"
    by (simp_all add: New_def)
  have "AnalyzeSignature (exampleWorld [sendTx]) (New ''h'' ''r'') ''sig'' ''Wallet1''
       = Returns ((summary, None), New ''h'' ''r'')"
    using b
    by (simp add: AnalyzeSignature_def sendTx_fetch sendTx_unfiltered sendTx_ensure
          sendTx_classify p)
  with buildSummary_nonempty [OF b] show ?thesis by blast
qed
lemma AnalyzeSignature_error_iff:
  "(\<exists>summary e a'. AnalyzeSignature W a signature trackedAddr = Returns ((summary, Some e), a'))
     \<longleftrightarrow> (\<exists>err. fetchHeliusTransaction W signature (HeliusTxURL a) = Inl err)"
  by (auto simp: AnalyzeSignature_def split: sum.splits outcome.splits prod.splits)

lemma AnalyzeSignature_empty_iff_filtered:
  assumes "AnalyzeSignature W a signature trackedAddr = Returns ((summary, None), a')"
  shows "summary = [] \<longleftrightarrow>
           (\<exists>tx. fetchHeliusTransaction W signature (HeliusTxURL a) = Inr tx
                 \<and> shouldFilter tx trackedAddr)"
  using assms
  by (auto simp: AnalyzeSignature_def split: sum.splits outcome.splits prod.splits if_splits
           dest: buildSummary_nonempty)

text \<open>
  C9. \<open>buildSummary\<close> slices the signature of the fetched transaction at \<open>[:6]\<close> and
  \<open>[len-6:]\<close> with no guard: it panics exactly when that signature is shorter than six
  bytes. So an analysis of a fetched, unfiltered transaction with such a signature
  panics, and an analysis that returns a summary had a fetched signature of at least six
  bytes.
\<close>

theorem buildSummary_signature_precondition:
  "(buildSummary W tx headline sent received = Panics \<longleftrightarrow> length (Signature tx) < 6)
   \<and> (\<forall>tx'. fetchHeliusTransaction W signature (HeliusTxURL a) = Inr tx'
          \<and> \<not> shouldFilter tx' trackedAddr \<and> length (Signature tx') < 6 \<longrightarrow>
          AnalyzeSignature W a signature trackedAddr = Panics)
   \<and> (\<forall>summary a'. AnalyzeSignature W a signature trackedAddr = Returns ((summary, None), a')
          \<and> summary \<noteq> [] \<longrightarrow>
          (\<exists>tx'. fetchHeliusTransaction W signature (HeliusTxURL a) = Inr tx'
              \<and> \<not> shouldFilter tx' trackedAddr \<and> 6 \<le> length (Signature tx')))"
  using AnalyzeSignature_short_signature [of W signature a _ trackedAddr]
    AnalyzeSignature_summary [of W a signature trackedAddr]
  by (simp add: buildSummary_Panics_iff)

theorem buildSummary_signature_precondition_witness:
  "buildSummary (exampleWorld []) shortSignatureTx ''SEND'' [''0.001 SOL''] [] = Panics
   \<and> AnalyzeSignature (exampleWorld [shortSignatureTx]) (New ''h'' ''r'') ''sig'' ''Wallet1'' = Panics
   \<and> (\<exists>tx'. fetchHeliusTransaction (exampleWorld [sendTx]) ''sig'' (HeliusTxURL (New ''h'' ''r'')) = Inr tx'
          \<and> \<not> shouldFilter tx' ''Wallet1'' \<and> 6 \<le> length (Signature tx'))"
proof -
  have f: "fetchHeliusTransaction (exampleWorld [shortSignatureTx]) ''sig'' (HeliusTxURL (New ''h'' ''r''))
             = Inr shortSignatureTx"
    by (simp add: fetchHeliusTransaction_def exampleWorld_def)
  have u: "\<not> shouldFilter shortSignatureTx ''Wallet1''"
    by (simp add: shouldFilter_def shortSignatureTx_def sendTx_def lamportsPerSol_def
          filterThreshold_def)
  have l: "length (Signature shortSignatureTx) < 6"
    by (simp add: shortSignatureTx_def)
  from sendTx_analysis obtain summary where
    s: "AnalyzeSignature (exampleWorld [sendTx]) (New ''h'' ''r'') ''sig'' ''Wallet1''
          = Returns ((summary, None), New ''h'' ''r'')" "summary \<noteq> []"
    by blast
  show ?thesis
    using buildSummary_signature_precondition
            [where W = "exampleWorld []" and tx = shortSignatureTx and headline = "''SEND''"
               and sent = "[''0.001 SOL'']" and received = "[]" and signature = "''sig''"
               and a = "New ''h'' ''r''" and trackedAddr = "''Wallet1''"]
          buildSummary_signature_precondition
            [where W = "exampleWorld [shortSignatureTx]" and tx = shortSignatureTx
               and headline = "''SEND''" and sent = "[]" and received = "[]"
               and signature = "''sig''" and a = "New ''h'' ''r''" and trackedAddr = "''Wallet1''"]
          buildSummary_signature_precondition
            [where W = "exampleWorld [sendTx]" and tx = sendTx
               and headline = "''SEND''" and sent = "[]" and received = "[]"
               and signature = "''sig''" and a = "New ''h'' ''r''" and trackedAddr = "''Wallet1''"]
          f u l s
    by blast
qed

text \<open>
  C3, at the failing input. The enrichment service answers 200 with one record that has
  no \<open>signature\<close> field and moves 0.001 SOL out of the tracked wallet. The fetch succeeds
  and the transaction is not filtered, yet \<open>AnalyzeSignature\<close> returns neither a summary
  nor an error: it panics in \<open>buildSummary\<close>.
\<close>

theorem AnalyzeSignature_panics_after_fetch:
  "fetchHeliusTransaction (exampleWorld [noSignatureTx])
       ''5VERv8NMvzbJMEkV8xnrLkEaWRtSz9CosKDYjCJjBRnbJLgp8uirBgmQpjKhoR4tjF3ZpRzrFmBV6UjKdiSZkQUW''
       (HeliusTxURL (New ''h'' ''r'')) = Inr noSignatureTx
   \<and> \<not> shouldFilter noSignatureTx ''Wallet1''
   \<and> AnalyzeSignature (exampleWorld [noSignatureTx]) (New ''h'' ''r'')
       ''5VERv8NMvzbJMEkV8xnrLkEaWRtSz9CosKDYjCJjBRnbJLgp8uirBgmQpjKhoR4tjF3ZpRzrFmBV6UjKdiSZkQUW''
       ''Wallet1'' = Panics"
proof -
  have f: "fetchHeliusTransaction (exampleWorld [noSignatureTx])
       ''5VERv8NMvzbJMEkV8xnrLkEaWRtSz9CosKDYjCJjBRnbJLgp8uirBgmQpjKhoR4tjF3ZpRzrFmBV6UjKdiSZkQUW''
       (HeliusTxURL (New ''h'' ''r'')) = Inr noSignatureTx"
    by (simp add: fetchHeliusTransaction_def exampleWorld_def)
  have u: "\<not> shouldFilter noSignatureTx ''Wallet1''"
    by (simp add: shouldFilter_def noSignatureTx_def sendTx_def lamportsPerSol_def
          filterThreshold_def)
  have l: "length (Signature noSignatureTx) < 6"
    by (simp add: noSignatureTx_def)
  from AnalyzeSignature_short_signature [OF f u l] f u show ?thesis by simp
qed

subsection \<open>The metadata cache\<close>













end
